theory Spec2Isabelle
  imports Main "HOL-Library.Sublist"
begin

section \<open>Strings as the parser uses them\<close>

text \<open>
  A JavaScript string is modelled as a \<open>string\<close> (a list of characters); the texts
  are taken to be ASCII, one character for every code unit. The
  operations below are the ones the parser calls on strings: \<open>startsWith\<close>,
  \<open>includes\<close>, \<open>trim\<close>, \<open>lastIndexOf\<close>, \<open>substring\<close> from index 0, and the
  interpolation of a value into a template literal. The white space that \<open>trim\<close>
  removes is the ASCII part of JavaScript's white space and line terminators (tab, line
  feed, vertical tab, form feed, carriage return, space).
\<close>

definition startsWith :: "string \<Rightarrow> string \<Rightarrow> bool" where
  "startsWith s p = (take (length p) s = p)"

fun str_includes :: "string \<Rightarrow> string \<Rightarrow> bool" where
  "str_includes [] p = (p = [])"
| "str_includes (c # cs) p = (startsWith (c # cs) p \<or> str_includes cs p)"

definition is_space :: "char \<Rightarrow> bool" where
  "is_space c = (c \<in> set [CHR 0x09, CHR 0x0A, CHR 0x0B, CHR 0x0C, CHR 0x0D, CHR 0x20])"

definition trim :: "string \<Rightarrow> string" where
  "trim s = rev (dropWhile is_space (rev (dropWhile is_space s)))"

definition lastIndexOf :: "string \<Rightarrow> char \<Rightarrow> int" where
  "lastIndexOf s c =
     (if c \<in> set s then int (length s) - 1 - int (length (takeWhile (\<lambda>x. x \<noteq> c) (rev s)))
      else - 1)"

definition substring0 :: "string \<Rightarrow> int \<Rightarrow> string" where
  "substring0 s n = take (nat n) s"

text \<open>A template literal prints the null value as the four letters \<open>null\<close>.\<close>

definition interpolate :: "string option \<Rightarrow> string" where
  "interpolate v = (case v of None \<Rightarrow> ''null'' | Some s \<Rightarrow> s)"

definition digit_char :: "nat \<Rightarrow> char" where
  "digit_char d = ''0123456789'' ! d"

fun str_of_nat :: "nat \<Rightarrow> string" where
  "str_of_nat n = (if n < 10 then [digit_char n] else str_of_nat (n div 10) @ [digit_char (n mod 10)])"

declare str_of_nat.simps [simp del]

section \<open>The document tree and its selectors\<close>

text \<open>
  The browser's \<open>DOMParser\<close> is outside the repository. A parsed document is modelled
  by its root node; an element carries its qualified tag name, its attributes in
  document order and its children. The local name of an element is the part of the tag
  name after the namespace prefix.
\<close>

datatype node =
    Element string "(string \<times> string) list" "node list"
  | TextNode string

fun tagName :: "node \<Rightarrow> string" where
  "tagName (Element t a cs) = t"
| "tagName (TextNode s) = []"

definition local_part :: "string \<Rightarrow> string" where
  "local_part t = (if CHR '':'' \<in> set t then tl (dropWhile (\<lambda>c. c \<noteq> CHR '':'') t) else t)"

fun localName :: "node \<Rightarrow> string" where
  "localName (Element t a cs) = local_part t"
| "localName (TextNode s) = []"

fun getAttribute :: "node \<Rightarrow> string \<Rightarrow> string option" where
  "getAttribute (Element t a cs) n = map_of a n"
| "getAttribute (TextNode s) n = None"

fun textContent :: "node \<Rightarrow> string" where
  "textContent (TextNode s) = s"
| "textContent (Element t a cs) = concat (map textContent cs)"

text \<open>
  \<open>tree_order anc n\<close> lists the elements of the subtree \<open>n\<close> in document order, each
  with the local names of its ancestors (\<open>anc\<close> for the root of the subtree).
\<close>

fun tree_order :: "string list \<Rightarrow> node \<Rightarrow> (node \<times> string list) list" where
  "tree_order anc (Element t a cs) =
     (Element t a cs, anc) # concat (map (tree_order (local_part t # anc)) cs)"
| "tree_order anc (TextNode s) = []"

text \<open>
  The selectors the parser writes: a type selector (\<open>rootfile\<close>), an attribute selector
  (\<open>[name="dc:title"]\<close>), the universal selector, each alone or as the right side of a
  descendant combinator whose left side is a type selector (\<open>metadata *\<close>), and comma
  lists of these. A type selector of \<open>querySelector\<close> has no namespace, so it compares
  local names, with case, as in an XML document.
\<close>

datatype simple_selector = TypeSel string | AttrSel string string | AnySel

datatype selector = Simple simple_selector | Descendant string simple_selector

fun matches_simple :: "simple_selector \<Rightarrow> node \<Rightarrow> bool" where
  "matches_simple (TypeSel n) e = (localName e = n)"
| "matches_simple (AttrSel a v) e = (getAttribute e a = Some v)"
| "matches_simple AnySel e = True"

fun matches :: "selector \<Rightarrow> node \<times> string list \<Rightarrow> bool" where
  "matches (Simple s) (e, anc) = matches_simple s e"
| "matches (Descendant a s) (e, anc) = (a \<in> set anc \<and> matches_simple s e)"

definition querySelectorAll :: "node \<Rightarrow> selector list \<Rightarrow> node list" where
  "querySelectorAll doc sels =
     map fst (filter (\<lambda>p. list_ex (\<lambda>s. matches s p) sels) (tree_order [] doc))"

definition querySelector :: "node \<Rightarrow> selector list \<Rightarrow> node option" where
  "querySelector doc sels = (case querySelectorAll doc sels of [] \<Rightarrow> None | e # es \<Rightarrow> Some e)"

text \<open>
  The two operations of the browser that the parser calls and the repository does not
  define: parsing a text into a document and serialising the children of an element.
\<close>

record dom =
  parseFromString :: "string \<Rightarrow> node"
  innerHTML :: "node \<Rightarrow> string"

section \<open>The archive\<close>

text \<open>
  The archive, once JSZip has loaded it, maps a path to an entry. Reading an entry gives
  its text and its base64 form, or fails (\<open>Unreadable\<close>: the promise of \<open>async\<close> is
  rejected). A path with no file gives \<open>None\<close>, as \<open>file(path)\<close> of the archive gives null.
\<close>

datatype entry = Entry string string | Unreadable

type_synonym archive = "string \<Rightarrow> entry option"

datatype error = ContainerError | FileNotFound string | ReadFailed | InvalidXml

definition getFileContent :: "archive \<Rightarrow> string \<Rightarrow> error + string" where
  "getFileContent ar path =
     (case ar path of
        None \<Rightarrow> Inl (FileNotFound path)
      | Some Unreadable \<Rightarrow> Inl ReadFailed
      | Some (Entry t b) \<Rightarrow> Inr t)"

definition parseXml :: "dom \<Rightarrow> string \<Rightarrow> error + node" where
  "parseXml P xmlString =
     (let doc = parseFromString P xmlString
      in if querySelector doc [Simple (TypeSel ''parsererror'')] \<noteq> None then Inl InvalidXml
         else Inr doc)"

section \<open>The container pointer\<close>

text \<open>
  \<open>findOpfPath\<close> sets the two fields \<open>opfPath\<close> and \<open>opfDir\<close> of the parser; the model
  returns them as a pair. Every failure inside its \<open>try\<close> block is caught and thrown
  again as the container error.
\<close>

definition findOpfPath :: "dom \<Rightarrow> archive \<Rightarrow> error + (string \<times> string)" where
  "findOpfPath P ar =
     (case getFileContent ar ''META-INF/container.xml'' of
        Inl e \<Rightarrow> Inl ContainerError
      | Inr containerContent \<Rightarrow>
          (case parseXml P containerContent of
             Inl e \<Rightarrow> Inl ContainerError
           | Inr containerDoc \<Rightarrow>
               (let opfPath =
                      (case querySelector containerDoc [Simple (TypeSel ''rootfile'')] of
                         None \<Rightarrow> []
                       | Some rootfileElement \<Rightarrow>
                           (case getAttribute rootfileElement ''full-path'' of
                              None \<Rightarrow> []
                            | Some p \<Rightarrow> p));
                    opfDir = substring0 opfPath (lastIndexOf opfPath CHR ''/'' + 1)
                in Inr (opfPath, opfDir))))"

section \<open>The package document\<close>

text \<open>
  A JavaScript \<open>Map\<close> keeps its keys in the order of their first insertion; setting an
  existing key replaces its value in place.
\<close>

fun map_set :: "('k \<times> 'v) list \<Rightarrow> 'k \<Rightarrow> 'v \<Rightarrow> ('k \<times> 'v) list" where
  "map_set [] k v = [(k, v)]"
| "map_set ((k', v') # m) k v = (if k' = k then (k, v) # m else (k', v') # map_set m k v)"

record manifestItem =
  item_href :: string
  item_mediaType :: "string option"
  item_properties :: "string option"

type_synonym manifest = "(string \<times> manifestItem) list"

text \<open>
  \<open>manifest_add\<close> and \<open>spine_add\<close> are the callbacks of the two \<open>forEach\<close> loops over
  the item and itemref elements.
\<close>

definition manifest_add :: "string \<Rightarrow> manifest \<Rightarrow> node \<Rightarrow> manifest" where
  "manifest_add opfDir m item =
     (case (getAttribute item ''id'', getAttribute item ''href'') of
        (Some i, Some h) \<Rightarrow>
          if i \<noteq> [] \<and> h \<noteq> [] then
            map_set m i \<lparr>item_href = opfDir @ h,
                         item_mediaType = getAttribute item ''media-type'',
                         item_properties = getAttribute item ''properties''\<rparr>
          else m
      | _ \<Rightarrow> m)"

definition extractManifest :: "string \<Rightarrow> node \<Rightarrow> manifest" where
  "extractManifest opfDir opfDoc =
     foldl (manifest_add opfDir) []
       (querySelectorAll opfDoc [Descendant ''manifest'' (TypeSel ''item'')])"

definition spine_add :: "string list \<Rightarrow> node \<Rightarrow> string list" where
  "spine_add spine itemref =
     (case getAttribute itemref ''idref'' of
        Some idref \<Rightarrow> if idref \<noteq> [] then spine @ [idref] else spine
      | None \<Rightarrow> spine)"

definition extractSpine :: "node \<Rightarrow> string list" where
  "extractSpine opfDoc =
     foldl spine_add [] (querySelectorAll opfDoc [Descendant ''spine'' (TypeSel ''itemref'')])"

text \<open>
  \<open>getMetaContent\<close> looks for one element, by four lookups in a fixed order; a later
  lookup runs only when the earlier ones found no element. Its result is the trimmed
  text of the element found, or the empty string.
\<close>

fun remove_first :: "string \<Rightarrow> string \<Rightarrow> string" where
  "remove_first [] p = []"
| "remove_first (c # cs) p =
     (if startsWith (c # cs) p then drop (length p) (c # cs) else c # remove_first cs p)"

definition split_second :: "string \<Rightarrow> string" where
  "split_second name =
     takeWhile (\<lambda>c. c \<noteq> CHR '':'') (tl (dropWhile (\<lambda>c. c \<noteq> CHR '':'') name))"

definition by_name_attr :: "node \<Rightarrow> string \<Rightarrow> node option" where
  "by_name_attr opfDoc name = querySelector opfDoc [Descendant ''metadata'' (AttrSel ''name'' name)]"

definition by_property_attr :: "node \<Rightarrow> string \<Rightarrow> node option" where
  "by_property_attr opfDoc name =
     querySelector opfDoc [Descendant ''metadata'' (AttrSel ''property'' name)]"

definition by_local_name_scan :: "node \<Rightarrow> string \<Rightarrow> node option" where
  "by_local_name_scan opfDoc name =
     (let localName' = remove_first name ''dc:'';
          metadataElements = querySelectorAll opfDoc [Descendant ''metadata'' AnySel]
      in find (\<lambda>el. localName el = localName' \<or> tagName el = localName' \<or> tagName el = name)
           metadataElements)"

definition by_plain_tag :: "node \<Rightarrow> string \<Rightarrow> node option" where
  "by_plain_tag opfDoc name =
     (let localName' = (if CHR '':'' \<in> set name then split_second name else name)
      in querySelector opfDoc [Descendant ''metadata'' (TypeSel localName')])"

definition text_or_empty :: "node option \<Rightarrow> string" where
  "text_or_empty element = (case element of None \<Rightarrow> [] | Some el \<Rightarrow> trim (textContent el))"

definition getMetaContent :: "node \<Rightarrow> string \<Rightarrow> string" where
  "getMetaContent opfDoc name =
     (let e1 = by_name_attr opfDoc name;
          e2 = (if e1 = None then by_property_attr opfDoc name else e1);
          e3 = (if e2 = None \<and> startsWith name ''dc:'' then by_local_name_scan opfDoc name else e2);
          e4 = (if e3 = None then by_plain_tag opfDoc name else e3)
      in text_or_empty e4)"

text \<open>The operator \<open>||\<close> on two strings: the empty string is the only false one.\<close>

definition str_or :: "string \<Rightarrow> string \<Rightarrow> string" where
  "str_or a b = (if a \<noteq> [] then a else b)"

record epubMetadata =
  md_title :: string
  md_author :: string
  md_language :: string
  md_identifier :: string
  md_description :: string
  md_publisher :: string
  md_date :: string

definition extractMetadata :: "node \<Rightarrow> epubMetadata" where
  "extractMetadata opfDoc =
     \<lparr>md_title = str_or (getMetaContent opfDoc ''dc:title'')
                (str_or (getMetaContent opfDoc ''title'') ''Unknown Title''),
      md_author = str_or (getMetaContent opfDoc ''dc:creator'')
                (str_or (getMetaContent opfDoc ''creator'') ''Unknown Author''),
      md_language = str_or (getMetaContent opfDoc ''dc:language'')
                (str_or (getMetaContent opfDoc ''language'') ''en''),
      md_identifier = str_or (getMetaContent opfDoc ''dc:identifier'')
                (str_or (getMetaContent opfDoc ''identifier'') []),
      md_description = str_or (getMetaContent opfDoc ''dc:description'')
                (getMetaContent opfDoc ''description''),
      md_publisher = str_or (getMetaContent opfDoc ''dc:publisher'')
                (getMetaContent opfDoc ''publisher''),
      md_date = str_or (getMetaContent opfDoc ''dc:date'') (getMetaContent opfDoc ''date'')\<rparr>"

section \<open>Chapters\<close>

record epubChapter =
  ch_id :: string
  ch_title :: string
  ch_href :: string
  ch_content :: string
  ch_order :: nat

text \<open>
  \<open>chapter_title\<close> is the title of a chapter document at spine index \<open>i\<close>;
  \<open>loadChapter\<close> is the body of the \<open>try\<close> block of the loop, with its two throwing
  calls; \<open>extractChapters_from\<close> is the loop from index \<open>i\<close> on, where a caught failure
  adds no chapter.
\<close>

definition chapter_title :: "node \<Rightarrow> nat \<Rightarrow> string" where
  "chapter_title doc i =
     (let titleElement =
            querySelector doc [Simple (TypeSel ''h1''), Simple (TypeSel ''h2''),
                               Simple (TypeSel ''h3''), Simple (TypeSel ''title'')]
      in str_or (text_or_empty titleElement) (''Chapter '' @ str_of_nat (i + 1)))"

definition loadChapter :: "dom \<Rightarrow> archive \<Rightarrow> nat \<Rightarrow> string \<Rightarrow> manifestItem \<Rightarrow> error + epubChapter" where
  "loadChapter P ar i cid manifestItem =
     (case getFileContent ar (item_href manifestItem) of
        Inl e \<Rightarrow> Inl e
      | Inr content \<Rightarrow>
          (case parseXml P content of
             Inl e \<Rightarrow> Inl e
           | Inr doc \<Rightarrow>
               (let bodyContent =
                      (case querySelector doc [Simple (TypeSel ''body'')] of
                         None \<Rightarrow> content
                       | Some bodyElement \<Rightarrow> str_or (innerHTML P bodyElement) content)
                in Inr \<lparr>ch_id = cid, ch_title = chapter_title doc i,
                        ch_href = item_href manifestItem, ch_content = bodyContent,
                        ch_order = i\<rparr>)))"

fun extractChapters_from :: "dom \<Rightarrow> archive \<Rightarrow> manifest \<Rightarrow> nat \<Rightarrow> string list \<Rightarrow> epubChapter list" where
  "extractChapters_from P ar m i [] = []"
| "extractChapters_from P ar m i (cid # rest) =
     (case map_of m cid of
        None \<Rightarrow> extractChapters_from P ar m (Suc i) rest
      | Some manifestItem \<Rightarrow>
          if item_mediaType manifestItem = Some ''application/xhtml+xml'' then
            (case loadChapter P ar i cid manifestItem of
               Inl e \<Rightarrow> extractChapters_from P ar m (Suc i) rest
             | Inr chapter \<Rightarrow> chapter # extractChapters_from P ar m (Suc i) rest)
          else extractChapters_from P ar m (Suc i) rest)"

definition extractChapters :: "dom \<Rightarrow> archive \<Rightarrow> string list \<Rightarrow> manifest \<Rightarrow> epubChapter list" where
  "extractChapters P ar spine m = extractChapters_from P ar m 0 spine"

section \<open>Resources and the cover image\<close>

definition is_resource_type :: "string option \<Rightarrow> bool" where
  "is_resource_type mt =
     (case mt of
        None \<Rightarrow> False
      | Some t \<Rightarrow> startsWith t ''image/'' \<or> t = ''text/css'' \<or> startsWith t ''audio/'')"

definition data_url :: "string option \<Rightarrow> string \<Rightarrow> string" where
  "data_url mt content = ''data:'' @ interpolate mt @ '';base64,'' @ content"

text \<open>\<open>resource_add\<close> is the body of the loop over the manifest.\<close>

definition resource_add :: "archive \<Rightarrow> (string \<times> string) list \<Rightarrow> string \<times> manifestItem \<Rightarrow> (string \<times> string) list" where
  "resource_add ar resources entry =
     (case entry of (k, item) \<Rightarrow>
        if is_resource_type (item_mediaType item) then
          (case ar (item_href item) of
             None \<Rightarrow> resources
           | Some Unreadable \<Rightarrow> resources
           | Some (Entry t content) \<Rightarrow>
               map_set resources (item_href item) (data_url (item_mediaType item) content))
        else resources)"

definition extractResources :: "archive \<Rightarrow> manifest \<Rightarrow> (string \<times> string) list" where
  "extractResources ar m = foldl (resource_add ar) [] m"

definition is_cover :: "string \<Rightarrow> manifestItem \<Rightarrow> bool" where
  "is_cover k item =
     ((case item_properties item of None \<Rightarrow> False | Some p \<Rightarrow> str_includes p ''cover-image'')
      \<or> k = ''cover'' \<or> k = ''cover-image'')"

fun findCoverImage :: "archive \<Rightarrow> manifest \<Rightarrow> string option" where
  "findCoverImage ar [] = None"
| "findCoverImage ar ((k, item) # rest) =
     (if is_cover k item then
        (case ar (item_href item) of
           None \<Rightarrow> findCoverImage ar rest
         | Some Unreadable \<Rightarrow> findCoverImage ar rest
         | Some (Entry t content) \<Rightarrow> Some (data_url (item_mediaType item) content))
      else findCoverImage ar rest)"

section \<open>The top-level parse\<close>

record epubBook =
  metadata :: epubMetadata
  chapters :: "epubChapter list"
  resources :: "(string \<times> string) list"
  coverImage :: "string option"

text \<open>
  \<open>parseEpub\<close> starts from the loaded archive. The three calls that can throw
  (\<open>findOpfPath\<close>, reading the package document, parsing it) are outside any \<open>try\<close>
  block, so their failure is the failure of the parse.
\<close>

definition parseEpub :: "dom \<Rightarrow> archive \<Rightarrow> error + epubBook" where
  "parseEpub P ar =
     (case findOpfPath P ar of
        Inl e \<Rightarrow> Inl e
      | Inr (opfPath, opfDir) \<Rightarrow>
          (case getFileContent ar opfPath of
             Inl e \<Rightarrow> Inl e
           | Inr opfContent \<Rightarrow>
               (case parseXml P opfContent of
                  Inl e \<Rightarrow> Inl e
                | Inr opfDoc \<Rightarrow>
                    (let manifest = extractManifest opfDir opfDoc;
                         spine = extractSpine opfDoc
                     in Inr \<lparr>metadata = extractMetadata opfDoc,
                             chapters = extractChapters P ar spine manifest,
                             resources = extractResources ar manifest,
                             coverImage = findCoverImage ar manifest\<rparr>))))"

section \<open>The content rewriter\<close>

subsection \<open>The regular expressions of \<open>processContent\<close>\<close>

text \<open>
  \<open>processContent\<close> builds its regular expressions from fixed text around the file name
  of a resource and applies them with \<open>String.replace\<close> under the flags \<open>g\<close> and \<open>i\<close>.
  The model covers the constructs these expressions use: a single character (a literal
  compared without case, a class, a negated class, the dot), a greedy or a lazy star of a
  single character, the two ends of a capture group (\<open>Mark\<close>) and a negative lookahead.
  \<open>rx_match r s marks\<close> matches \<open>r\<close> at the start of \<open>s\<close> by backtracking, in the order
  the language prescribes (a greedy star takes a character first, a lazy star last), and
  returns the text after the match with the text found at every \<open>Mark\<close>.
\<close>

definition dq :: char where
  "dq = CHR 0x22"



datatype rx_atom = Lit char | OneOf string | NoneOf string | AnyChar


datatype rx = One rx_atom | Star rx_atom | LazyStar rx_atom | Mark | NotAhead "rx list"














subsection \<open>\<open>processContent\<close>\<close>






section \<open>Notions used to state the properties\<close>

text \<open>
  \<open>openPackage\<close> is the part of \<open>parseEpub\<close> that can fail: it gives the directory and
  the document of the package, or the error that ends the parse.
\<close>

definition openPackage :: "dom \<Rightarrow> archive \<Rightarrow> error + (string \<times> node)" where
  "openPackage P ar =
     (case findOpfPath P ar of
        Inl e \<Rightarrow> Inl e
      | Inr (opfPath, opfDir) \<Rightarrow>
          (case getFileContent ar opfPath of
             Inl e \<Rightarrow> Inl e
           | Inr opfContent \<Rightarrow>
               (case parseXml P opfContent of
                  Inl e \<Rightarrow> Inl e
                | Inr opfDoc \<Rightarrow> Inr (opfDir, opfDoc))))"

text \<open>The states of the container pointer that the first property speaks of.\<close>

datatype container_state = Missing | Unread | Malformed | NoFullPath | FullPath string

definition container_state :: "dom \<Rightarrow> archive \<Rightarrow> container_state" where
  "container_state P ar =
     (case ar ''META-INF/container.xml'' of
        None \<Rightarrow> Missing
      | Some Unreadable \<Rightarrow> Unread
      | Some (Entry t b) \<Rightarrow>
          (case parseXml P t of
             Inl e \<Rightarrow> Malformed
           | Inr doc \<Rightarrow>
               (case querySelector doc [Simple (TypeSel ''rootfile'')] of
                  None \<Rightarrow> NoFullPath
                | Some el \<Rightarrow>
                    (case getAttribute el ''full-path'' of
                       None \<Rightarrow> NoFullPath
                     | Some p \<Rightarrow> FullPath p))))"

text \<open>
  A spine entry yields a chapter when the manifest has it with the XHTML media type, its
  archive entry can be read and its text parses.
\<close>

definition entry_loads :: "archive \<Rightarrow> string \<Rightarrow> bool" where
  "entry_loads ar path = (case ar path of Some (Entry t b) \<Rightarrow> True | _ \<Rightarrow> False)"

definition entry_base64 :: "archive \<Rightarrow> string \<Rightarrow> string" where
  "entry_base64 ar path = (case ar path of Some (Entry t b) \<Rightarrow> b | _ \<Rightarrow> [])"

definition chapter_loads :: "dom \<Rightarrow> archive \<Rightarrow> manifest \<Rightarrow> string \<Rightarrow> bool" where
  "chapter_loads P ar m cid =
     (case map_of m cid of
        None \<Rightarrow> False
      | Some item \<Rightarrow>
          item_mediaType item = Some ''application/xhtml+xml'' \<and>
          (case ar (item_href item) of
             Some (Entry t b) \<Rightarrow> parseXml P t \<noteq> Inl InvalidXml
           | _ \<Rightarrow> False))"


text \<open>The elements of a document in document order, and the four kinds of title element.\<close>

definition elements :: "node \<Rightarrow> node list" where
  "elements doc = map fst (tree_order [] doc)"



text \<open>
  A metadata lookup as the specification words it: the four strategies in their order,
  and the first one whose element has text decides.
\<close>

definition lookup_first_text :: "node \<Rightarrow> string \<Rightarrow> string" where
  "lookup_first_text opfDoc name =
     (case filter (\<lambda>t. t \<noteq> [])
             [text_or_empty (by_name_attr opfDoc name),
              text_or_empty (by_property_attr opfDoc name),
              text_or_empty (if startsWith name ''dc:'' then by_local_name_scan opfDoc name else None),
              text_or_empty (by_plain_tag opfDoc name)] of
        [] \<Rightarrow> []
      | t # ts \<Rightarrow> t)"

text \<open>
  A metadata lookup by the first strategy that finds an element, whatever its text.
\<close>

definition lookup_first_element :: "node \<Rightarrow> string \<Rightarrow> string" where
  "lookup_first_element opfDoc name =
     (case filter (\<lambda>e. e \<noteq> None)
             [by_name_attr opfDoc name,
              by_property_attr opfDoc name,
              if startsWith name ''dc:'' then by_local_name_scan opfDoc name else None,
              by_plain_tag opfDoc name] of
        [] \<Rightarrow> []
      | e # es \<Rightarrow> text_or_empty e)"

text \<open>
  The id under which an item element enters the manifest (none when the element lacks an
  id or an href), and a list cut down to the first occurrence of each of its members.
\<close>

definition item_id :: "node \<Rightarrow> string option" where
  "item_id e =
     (case (getAttribute e ''id'', getAttribute e ''href'') of
        (Some i, Some h) \<Rightarrow> if i \<noteq> [] \<and> h \<noteq> [] then Some i else None
      | _ \<Rightarrow> None)"

definition first_occurrences :: "'a list \<Rightarrow> 'a list" where
  "first_occurrences xs = rev (remdups (rev xs))"

text \<open>
  The cover as the specification words it: the first manifest item whose list of
  property tokens holds the cover marker or whose id is reserved is the only candidate.
\<close>

fun tokens_from :: "string \<Rightarrow> string \<Rightarrow> string list" where
  "tokens_from cur [] = (if cur = [] then [] else [cur])"
| "tokens_from cur (c # cs) =
     (if is_space c then (if cur = [] then [] else [cur]) @ tokens_from [] cs
      else tokens_from (cur @ [c]) cs)"

definition has_cover_token :: "string \<Rightarrow> manifestItem \<Rightarrow> bool" where
  "has_cover_token k item =
     ((case item_properties item of
         None \<Rightarrow> False
       | Some p \<Rightarrow> ''cover-image'' \<in> set (tokens_from [] p))
      \<or> k = ''cover'' \<or> k = ''cover-image'')"

definition cover_by_first_match :: "archive \<Rightarrow> manifest \<Rightarrow> string option" where
  "cover_by_first_match ar m =
     (case find (\<lambda>(k, item). has_cover_token k item) m of
        None \<Rightarrow> None
      | Some (k, item) \<Rightarrow>
          (case ar (item_href item) of
             Some (Entry t content) \<Rightarrow> Some (data_url (item_mediaType item) content)
           | _ \<Rightarrow> None))"

section \<open>Example archives\<close>

text \<open>
  The example parser knows the texts of the example archives and answers every other
  text with an error document; the example serialiser writes tags and text as they are.
\<close>

fun ex_serialize :: "node \<Rightarrow> string" where
  "ex_serialize (TextNode s) = s"
| "ex_serialize (Element t a cs) =
     ''<'' @ t @ concat (map (\<lambda>(k, v). '' '' @ k @ ''='' @ [dq] @ v @ [dq]) a) @ ''>'' @
     concat (map ex_serialize cs) @ ''</'' @ t @ ''>''"

fun ex_innerHTML :: "node \<Rightarrow> string" where
  "ex_innerHTML (Element t a cs) = concat (map ex_serialize cs)"
| "ex_innerHTML (TextNode s) = []"

definition ex_container_xml :: string where
  \<open>ex_container_xml =
     ''<container><rootfiles><rootfile full-path="OEBPS/content.opf"/></rootfiles></container>''\<close>

definition ex_container_doc :: node where
  "ex_container_doc =
     Element ''container'' []
       [Element ''rootfiles'' []
          [Element ''rootfile'' [(''full-path'', ''OEBPS/content.opf'')] []]]"

definition ex_nopath_xml :: string where
  \<open>ex_nopath_xml = ''<container><rootfiles><rootfile/></rootfiles></container>''\<close>

definition ex_nopath_doc :: node where
  "ex_nopath_doc =
     Element ''container'' [] [Element ''rootfiles'' [] [Element ''rootfile'' [] []]]"

definition ex_opf_xml :: "string list \<Rightarrow> string" where
  \<open>ex_opf_xml spine =
     ''<package xmlns:dc="http://purl.org/dc/elements/1.1/">'' @
     ''<metadata><dc:title>Pearl</dc:title></metadata><manifest>'' @
     ''<item id="cover" href="cover.jpg"/>'' @
     ''<item id="nav" href="toc.ncx" media-type="application/x-dtbncx+xml"/>'' @
     ''<item id="c1" href="c1.xhtml" media-type="application/xhtml+xml"/>'' @
     ''<item id="c2" href="c2.xhtml" media-type="application/xhtml+xml"/>'' @
     ''<item id="c3" href="c3.xhtml" media-type="application/xhtml+xml"/>'' @
     ''<item id="img" href="images/image.png" media-type="image/png" properties="cover-image"/>'' @
     ''<item id="css" href="style.css" media-type="text/css"/>'' @
     ''</manifest><spine>'' @
     concat (map (\<lambda>i. ''<itemref idref="'' @ i @ ''"/>'') spine) @
     ''</spine></package>''\<close>

definition ex_opf_doc :: "string list \<Rightarrow> node" where
  "ex_opf_doc spine =
     Element ''package'' [(''xmlns:dc'', ''http://purl.org/dc/elements/1.1/'')]
       [Element ''metadata'' [] [Element ''dc:title'' [] [TextNode ''Pearl'']],
        Element ''manifest'' []
          [Element ''item'' [(''id'', ''cover''), (''href'', ''cover.jpg'')] [],
           Element ''item'' [(''id'', ''nav''), (''href'', ''toc.ncx''),
                             (''media-type'', ''application/x-dtbncx+xml'')] [],
           Element ''item'' [(''id'', ''c1''), (''href'', ''c1.xhtml''),
                             (''media-type'', ''application/xhtml+xml'')] [],
           Element ''item'' [(''id'', ''c2''), (''href'', ''c2.xhtml''),
                             (''media-type'', ''application/xhtml+xml'')] [],
           Element ''item'' [(''id'', ''c3''), (''href'', ''c3.xhtml''),
                             (''media-type'', ''application/xhtml+xml'')] [],
           Element ''item'' [(''id'', ''img''), (''href'', ''images/image.png''),
                             (''media-type'', ''image/png''),
                             (''properties'', ''cover-image'')] [],
           Element ''item'' [(''id'', ''css''), (''href'', ''style.css''),
                             (''media-type'', ''text/css'')] []],
        Element ''spine'' [] (map (\<lambda>i. Element ''itemref'' [(''idref'', i)] []) spine)]"

definition ex_c1_xml :: string where
  "ex_c1_xml = ''<html><head><title>Front</title></head><body><h1>One</h1></body></html>''"

definition ex_c1_doc :: node where
  "ex_c1_doc =
     Element ''html'' []
       [Element ''head'' [] [Element ''title'' [] [TextNode ''Front'']],
        Element ''body'' [] [Element ''h1'' [] [TextNode ''One'']]]"

definition ex_c3_xml :: string where
  "ex_c3_xml = ''<html><body><p>Two</p></body></html>''"

definition ex_c3_doc :: node where
  "ex_c3_doc = Element ''html'' [] [Element ''body'' [] [Element ''p'' [] [TextNode ''Two'']]]"

definition ex_error_doc :: node where
  "ex_error_doc = Element ''parsererror'' [] [TextNode ''error'']"

definition ex_spine :: "string list" where
  "ex_spine = [''nav'', ''c1'', ''c2'', ''c1'']"

definition ex_spine_distinct :: "string list" where
  "ex_spine_distinct = [''nav'', ''c1'', ''c2'', ''c3'']"

definition ex_dom :: dom where
  "ex_dom =
     \<lparr>parseFromString =
        (\<lambda>s. if s = ex_container_xml then ex_container_doc
             else if s = ex_nopath_xml then ex_nopath_doc
             else if s = ex_opf_xml ex_spine then ex_opf_doc ex_spine
             else if s = ex_opf_xml ex_spine_distinct then ex_opf_doc ex_spine_distinct
             else if s = ex_c1_xml then ex_c1_doc
             else if s = ex_c3_xml then ex_c3_doc
             else ex_error_doc),
      innerHTML = ex_innerHTML\<rparr>"

text \<open>
  The example archive: the package document declares the prefix of its \<open>dc:title\<close>
  element, the cover item has no archive entry, the second chapter is cut short, the
  third chapter has no heading and the style sheet cannot be read.
\<close>

definition ex_files :: "string list \<Rightarrow> archive" where
  "ex_files spine =
     [''META-INF/container.xml'' \<mapsto> Entry ex_container_xml ''PGNvbnRhaW5lcj4='',
      ''OEBPS/content.opf'' \<mapsto> Entry (ex_opf_xml spine) ''PHBhY2thZ2U+'',
      ''OEBPS/toc.ncx'' \<mapsto> Entry ''<ncx/>'' ''PG5jeC8+'',
      ''OEBPS/c1.xhtml'' \<mapsto> Entry ex_c1_xml ''PGh0bWw+'',
      ''OEBPS/c2.xhtml'' \<mapsto> Entry ''<html><body>'' ''PGh0bWw+PGJvZHk+'',
      ''OEBPS/c3.xhtml'' \<mapsto> Entry ex_c3_xml ''PGh0bWw+PGJvZHk+PHA+'',
      ''OEBPS/images/image.png'' \<mapsto> Entry ''PNG'' ''iVBORw=='',
      ''OEBPS/style.css'' \<mapsto> Unreadable]"

definition ex_archive :: archive where
  "ex_archive = ex_files ex_spine"

definition ex_archive_distinct :: archive where
  "ex_archive_distinct = ex_files ex_spine_distinct"

definition ex_archive_cover :: archive where
  "ex_archive_cover = ex_archive(''OEBPS/cover.jpg'' \<mapsto> Entry ''JFIF'' ''/9j/4A=='')"

definition ex_archive_nopath :: archive where
  "ex_archive_nopath = [''META-INF/container.xml'' \<mapsto> Entry ex_nopath_xml ''PGNvbnRhaW5lcj4='']"

definition ex_archive_unread :: archive where
  "ex_archive_unread = [''META-INF/container.xml'' \<mapsto> Unreadable]"

definition ex_archive_malformed :: archive where
  "ex_archive_malformed = [''META-INF/container.xml'' \<mapsto> Entry ''<container'' ''PGNvbnRhaW5lcg=='']"

definition ex_manifest :: manifest where
  "ex_manifest =
     [(''cover'', \<lparr>item_href = ''OEBPS/cover.jpg'', item_mediaType = None, item_properties = None\<rparr>),
      (''nav'', \<lparr>item_href = ''OEBPS/toc.ncx'', item_mediaType = Some ''application/x-dtbncx+xml'',
                  item_properties = None\<rparr>),
      (''c1'', \<lparr>item_href = ''OEBPS/c1.xhtml'', item_mediaType = Some ''application/xhtml+xml'',
                 item_properties = None\<rparr>),
      (''c2'', \<lparr>item_href = ''OEBPS/c2.xhtml'', item_mediaType = Some ''application/xhtml+xml'',
                 item_properties = None\<rparr>),
      (''c3'', \<lparr>item_href = ''OEBPS/c3.xhtml'', item_mediaType = Some ''application/xhtml+xml'',
                 item_properties = None\<rparr>),
      (''img'', \<lparr>item_href = ''OEBPS/images/image.png'', item_mediaType = Some ''image/png'',
                  item_properties = Some ''cover-image''\<rparr>),
      (''css'', \<lparr>item_href = ''OEBPS/style.css'', item_mediaType = Some ''text/css'',
                  item_properties = None\<rparr>)]"

text \<open>A manifest whose only item has the cover marker inside a longer property token.\<close>

definition ex_manifest_marker :: manifest where
  "ex_manifest_marker =
     [(''img'', \<lparr>item_href = ''OEBPS/images/image.png'', item_mediaType = Some ''image/png'',
                  item_properties = Some ''no-cover-image''\<rparr>)]"

definition ex_chapter :: "nat \<Rightarrow> epubChapter" where
  "ex_chapter i =
     \<lparr>ch_id = ''c1'', ch_title = ''Front'', ch_href = ''OEBPS/c1.xhtml'',
      ch_content = ''<h1>One</h1>'', ch_order = i\<rparr>"

definition ex_chapter_plain :: epubChapter where
  "ex_chapter_plain =
     \<lparr>ch_id = ''c3'', ch_title = ''Chapter 4'', ch_href = ''OEBPS/c3.xhtml'',
      ch_content = ''<p>Two</p>'', ch_order = 3\<rparr>"

definition ex_metadata :: epubMetadata where
  "ex_metadata =
     \<lparr>md_title = ''Pearl'', md_author = ''Unknown Author'', md_language = ''en'',
      md_identifier = [], md_description = [], md_publisher = [], md_date = []\<rparr>"

definition ex_book :: epubBook where
  "ex_book =
     \<lparr>metadata = ex_metadata,
      chapters = [ex_chapter 1, ex_chapter 3],
      resources = [(''OEBPS/images/image.png'', ''data:image/png;base64,iVBORw=='')],
      coverImage = Some ''data:image/png;base64,iVBORw==''\<rparr>"

text \<open>Two package documents for the metadata lookups.\<close>

definition ex_meta_doc :: node where
  "ex_meta_doc =
     Element ''package'' []
       [Element ''metadata'' []
          [Element ''meta'' [(''name'', ''dc:title''), (''content'', ''Pearl'')] [],
           Element ''meta'' [(''property'', ''dc:title'')] [TextNode ''Pearl'']]]"

definition ex_meta_doc_named :: node where
  "ex_meta_doc_named =
     Element ''package'' [(''xmlns:dc'', ''http://purl.org/dc/elements/1.1/'')]
       [Element ''metadata'' []
          [Element ''dc:title'' [] [TextNode ''Namespaced''],
           Element ''meta'' [(''name'', ''dc:title'')] [TextNode '' Named '']]]"




section \<open>Example evaluations\<close>

lemma ex_open: "openPackage ex_dom ex_archive = Inr (''OEBPS/'', ex_opf_doc ex_spine)"
  by code_simp

lemma ex_open_distinct:
  "openPackage ex_dom ex_archive_distinct = Inr (''OEBPS/'', ex_opf_doc ex_spine_distinct)"
  by code_simp

lemma ex_manifest_eval: "extractManifest ''OEBPS/'' (ex_opf_doc ex_spine) = ex_manifest"
  by code_simp

lemma ex_manifest_eval_distinct:
  "extractManifest ''OEBPS/'' (ex_opf_doc ex_spine_distinct) = ex_manifest"
  by code_simp

lemma ex_spine_eval: "extractSpine (ex_opf_doc ex_spine) = ex_spine"
  by code_simp

lemma ex_spine_eval_distinct: "extractSpine (ex_opf_doc ex_spine_distinct) = ex_spine_distinct"
  by code_simp

lemma ex_parse: "parseEpub ex_dom ex_archive = Inr ex_book"
  by code_simp

lemma ex_parse_distinct:
  "parseEpub ex_dom ex_archive_distinct =
     Inr (ex_book\<lparr>chapters := [ex_chapter 1, ex_chapter_plain]\<rparr>)"
  by code_simp

section \<open>The parse and the package\<close>

lemma parseEpub_openPackage:
  "parseEpub P ar =
     (case openPackage P ar of
        Inl e \<Rightarrow> Inl e
      | Inr (opfDir, opfDoc) \<Rightarrow>
          Inr \<lparr>metadata = extractMetadata opfDoc,
               chapters = extractChapters P ar (extractSpine opfDoc) (extractManifest opfDir opfDoc),
               resources = extractResources ar (extractManifest opfDir opfDoc),
               coverImage = findCoverImage ar (extractManifest opfDir opfDoc)\<rparr>)"
  by (simp add: parseEpub_def openPackage_def Let_def split: sum.splits prod.splits)

lemma parseEpub_chapters:
  assumes "openPackage P ar = Inr (opfDir, opfDoc)" and "parseEpub P ar = Inr book"
  shows "chapters book =
           extractChapters_from P ar (extractManifest opfDir opfDoc) 0 (extractSpine opfDoc)"
  using assms by (auto simp: parseEpub_openPackage extractChapters_def)

lemma parseXml_Inl: "parseXml P s = Inl e \<Longrightarrow> e = InvalidXml"
  by (simp add: parseXml_def Let_def split: if_splits)

section \<open>The chapter loop\<close>

lemma loadChapter_Inr_iff:
  "(\<exists>c. loadChapter P ar i cid item = Inr c) \<longleftrightarrow>
   (case ar (item_href item) of Some (Entry t b) \<Rightarrow> parseXml P t \<noteq> Inl InvalidXml | _ \<Rightarrow> False)"
  by (auto simp: loadChapter_def getFileContent_def Let_def
      split: option.splits entry.splits sum.splits dest: parseXml_Inl)

lemma loadChapter_fields:
  "loadChapter P ar i cid item = Inr c \<Longrightarrow> ch_id c = cid \<and> ch_order c = i \<and> ch_href c = item_href item"
  by (auto simp: loadChapter_def Let_def split: sum.splits)



lemma chapters_from_ids:
  "map ch_id (extractChapters_from P ar m i sp) = filter (chapter_loads P ar m) sp"
proof (induction sp arbitrary: i)
  case Nil
  show ?case by simp
next
  case (Cons cid rest)
  show ?case
  proof (cases "map_of m cid")
    case None
    then show ?thesis using Cons.IH by (simp add: chapter_loads_def)
  next
    case (Some item)
    show ?thesis
    proof (cases "item_mediaType item = Some ''application/xhtml+xml''")
      case False
      then show ?thesis using Some Cons.IH by (simp add: chapter_loads_def)
    next
      case True
      show ?thesis
      proof (cases "loadChapter P ar i cid item")
        case (Inl e)
        then have "\<not> (\<exists>c. loadChapter P ar i cid item = Inr c)" by simp
        then have "\<not> chapter_loads P ar m cid"
          unfolding loadChapter_Inr_iff by (simp add: chapter_loads_def Some True)
        then show ?thesis using Some True Inl Cons.IH by simp
      next
        case (Inr c)
        then have "\<exists>c. loadChapter P ar i cid item = Inr c" by blast
        then have "chapter_loads P ar m cid"
          unfolding loadChapter_Inr_iff by (simp add: chapter_loads_def Some True)
        then show ?thesis using Some True Inr Cons.IH loadChapter_fields[OF Inr] by simp
      qed
    qed
  qed
qed

lemma chapters_from_order:
  "c \<in> set (extractChapters_from P ar m i sp) \<Longrightarrow>
     i \<le> ch_order c \<and> ch_order c < i + length sp \<and> sp ! (ch_order c - i) = ch_id c"
proof (induction sp arbitrary: i)
  case Nil
  then show ?case by simp
next
  case (Cons cid rest)
  have later: "c \<in> set (extractChapters_from P ar m (Suc i) rest) \<Longrightarrow> ?case"
  proof -
    assume "c \<in> set (extractChapters_from P ar m (Suc i) rest)"
    from Cons.IH[OF this]
    have h: "Suc i \<le> ch_order c" "ch_order c < Suc i + length rest"
      "rest ! (ch_order c - Suc i) = ch_id c" by auto
    then have "ch_order c - i = Suc (ch_order c - Suc i)" by arith
    with h show ?case by simp
  qed
  from Cons.prems consider
    "c \<in> set (extractChapters_from P ar m (Suc i) rest)"
    | item where "map_of m cid = Some item" "loadChapter P ar i cid item = Inr c"
    by (auto split: option.splits if_splits sum.splits)
  then show ?case
  proof cases
    case 1
    then show ?thesis by (rule later)
  next
    case 2
    from loadChapter_fields[OF 2(2)] show ?thesis by simp
  qed
qed

lemma chapters_from_increasing:
  "sorted_wrt (<) (map ch_order (extractChapters_from P ar m i sp))"
proof (induction sp arbitrary: i)
  case Nil
  show ?case by simp
next
  case (Cons cid rest)
  have "i < ch_order c" if "c \<in> set (extractChapters_from P ar m (Suc i) rest)" for c
    using chapters_from_order[OF that] by simp
  then show ?case using Cons.IH[of "Suc i"]
    by (auto split: option.splits sum.splits dest: loadChapter_fields)
qed

lemma increasing_nth_ge: "sorted_wrt (<) (xs :: nat list) \<Longrightarrow> i < length xs \<Longrightarrow> i \<le> xs ! i"
proof (induction i)
  case 0
  show ?case by simp
next
  case (Suc i)
  then have "xs ! i < xs ! Suc i" by (simp add: sorted_wrt_iff_nth_less)
  moreover have "i \<le> xs ! i" using Suc by simp
  ultimately show ?case by simp
qed

lemma chapters_from_append:
  "extractChapters_from P ar m i (sp @ sp') =
     extractChapters_from P ar m i sp @ extractChapters_from P ar m (i + length sp) sp'"
  by (induction sp arbitrary: i) (auto split: option.splits sum.splits)

lemma chapters_from_single:
  "map ch_order (extractChapters_from P ar m i [cid]) = (if chapter_loads P ar m cid then [i] else [])"
proof -
  have "map ch_id (extractChapters_from P ar m i [cid]) = filter (chapter_loads P ar m) [cid]"
    by (rule chapters_from_ids)
  then have "length (map ch_id (extractChapters_from P ar m i [cid])) =
      length (filter (chapter_loads P ar m) [cid])"
    by (rule arg_cong)
  then have len: "length (extractChapters_from P ar m i [cid]) = (if chapter_loads P ar m cid then 1 else 0)"
    by simp
  show ?thesis
  proof (cases "chapter_loads P ar m cid")
    case False
    then show ?thesis using len by simp
  next
    case True
    then obtain c where c: "extractChapters_from P ar m i [cid] = [c]"
      using len by (cases "extractChapters_from P ar m i [cid]") auto
    then have "c \<in> set (extractChapters_from P ar m i [cid])" by simp
    from chapters_from_order[OF this] have "ch_order c = i" by simp
    then show ?thesis using True c by simp
  qed
qed

lemma chapters_from_orders:
  "map ch_order (extractChapters_from P ar m 0 sp) =
     filter (\<lambda>j. chapter_loads P ar m (sp ! j)) [0..<length sp]"
proof (induction sp rule: rev_induct)
  case Nil
  show ?case by simp
next
  case (snoc cid sp)
  have "filter (\<lambda>j. chapter_loads P ar m ((sp @ [cid]) ! j)) [0..<length sp] =
        filter (\<lambda>j. chapter_loads P ar m (sp ! j)) [0..<length sp]"
    by (rule filter_cong) (simp_all add: nth_append)
  then show ?case
    by (simp add: chapters_from_append chapters_from_single snoc.IH
        del: extractChapters_from.simps)
qed

section \<open>The order of a chapter\<close>

text \<open>
  C2. For every book that \<open>parseEpub\<close> returns, the orders of its chapters are the
  indices of the spine of the package document whose entry yields a chapter, in
  increasing order. So for every index \<open>i\<close> into the chapters, the order of chapter \<open>i\<close> is
  an index of the spine, the spine holds the id of the chapter at that index, and the
  order is at least \<open>i\<close>: it is the index of the spine loop, not the position among the
  chapters, and it runs ahead of the position after every dropped spine entry.
\<close>

theorem chapter_order_is_spine_index:
  assumes "openPackage P ar = Inr (opfDir, opfDoc)"
    and "parseEpub P ar = Inr book"
    and "i < length (chapters book)"
  shows "map ch_order (chapters book) =
           filter (\<lambda>j. chapter_loads P ar (extractManifest opfDir opfDoc) (extractSpine opfDoc ! j))
             [0..<length (extractSpine opfDoc)] \<and>
         ch_order (chapters book ! i) < length (extractSpine opfDoc) \<and>
         extractSpine opfDoc ! ch_order (chapters book ! i) = ch_id (chapters book ! i) \<and>
         i \<le> ch_order (chapters book ! i) \<and>
         sorted_wrt (<) (map ch_order (chapters book))"
proof -
  let ?m = "extractManifest opfDir opfDoc" and ?sp = "extractSpine opfDoc"
  have eq: "chapters book = extractChapters_from P ar ?m 0 ?sp"
    using assms(1,2) by (rule parseEpub_chapters)
  have ords: "map ch_order (chapters book) =
      filter (\<lambda>j. chapter_loads P ar ?m (?sp ! j)) [0..<length ?sp]"
    unfolding eq by (rule chapters_from_orders)
  have "chapters book ! i \<in> set (extractChapters_from P ar ?m 0 ?sp)"
    using assms(3) eq by (metis nth_mem)
  from chapters_from_order[OF this]
  have a: "ch_order (chapters book ! i) < length ?sp"
    and b: "?sp ! ch_order (chapters book ! i) = ch_id (chapters book ! i)" by simp_all
  have inc: "sorted_wrt (<) (map ch_order (chapters book))"
    unfolding eq by (rule chapters_from_increasing)
  have "i \<le> map ch_order (chapters book) ! i"
    using increasing_nth_ge[OF inc] assms(3) by simp
  then have "i \<le> ch_order (chapters book ! i)" using assms(3) by simp
  with ords a b inc show ?thesis by simp
qed

theorem chapter_order_is_spine_index_witness:
  "parseEpub ex_dom ex_archive = Inr ex_book \<and>
   extractSpine (ex_opf_doc ex_spine) = [''nav'', ''c1'', ''c2'', ''c1''] \<and>
   map ch_order (chapters ex_book) = [1, 3] \<and>
   ch_order (chapters ex_book ! 0) < length (extractSpine (ex_opf_doc ex_spine)) \<and>
   extractSpine (ex_opf_doc ex_spine) ! ch_order (chapters ex_book ! 0) = ch_id (chapters ex_book ! 0) \<and>
   0 \<le> ch_order (chapters ex_book ! 0)"
proof -
  have len: "0 < length (chapters ex_book)"
    by (simp add: ex_book_def)
  have sp: "extractSpine (ex_opf_doc ex_spine) = [''nav'', ''c1'', ''c2'', ''c1'']"
    using ex_spine_eval by (simp add: ex_spine_def)
  have ord: "map ch_order (chapters ex_book) = [1, 3]"
    by (simp add: ex_book_def ex_chapter_def)
  from chapter_order_is_spine_index[OF ex_open ex_parse len]
  have "ch_order (chapters ex_book ! 0) < length (extractSpine (ex_opf_doc ex_spine)) \<and>
        extractSpine (ex_opf_doc ex_spine) ! ch_order (chapters ex_book ! 0) =
          ch_id (chapters ex_book ! 0) \<and>
        0 \<le> ch_order (chapters ex_book ! 0)"
    by blast
  with ex_parse sp ord show ?thesis by blast
qed

section \<open>The number of chapters\<close>

text \<open>
  C3. For every archive whose container and package document parse, \<open>parseEpub\<close>
  returns a book, and the number of its chapters is the number of spine entries whose
  manifest item has exactly the XHTML media type and whose archive entry both loads and
  parses. The failures of single chapters never end the parse: the book is returned
  whatever the spine entries do, with an empty list of chapters when none loads.
\<close>

theorem chapters_length:
  assumes "openPackage P ar = Inr (opfDir, opfDoc)"
  shows "\<exists>book. parseEpub P ar = Inr book \<and>
           length (chapters book) =
             length (filter (chapter_loads P ar (extractManifest opfDir opfDoc))
                       (extractSpine opfDoc))"
proof -
  obtain book where b: "parseEpub P ar = Inr book"
    using assms by (simp add: parseEpub_openPackage)
  have "map ch_id (chapters book) =
          filter (chapter_loads P ar (extractManifest opfDir opfDoc)) (extractSpine opfDoc)"
    unfolding parseEpub_chapters[OF assms b] by (rule chapters_from_ids)
  then have "length (chapters book) =
          length (filter (chapter_loads P ar (extractManifest opfDir opfDoc)) (extractSpine opfDoc))"
    by (metis length_map)
  with b show ?thesis by blast
qed

theorem chapters_length_witness:
  "openPackage ex_dom ex_archive = Inr (''OEBPS/'', ex_opf_doc ex_spine) \<and>
   filter (chapter_loads ex_dom ex_archive ex_manifest) ex_spine = [''c1'', ''c1''] \<and>
   (\<exists>book. parseEpub ex_dom ex_archive = Inr book \<and> length (chapters book) = 2)"
proof -
  have f: "filter (chapter_loads ex_dom ex_archive ex_manifest) ex_spine = [''c1'', ''c1'']"
    by code_simp
  show ?thesis
    using chapters_length[OF ex_open]
    by (simp add: ex_open ex_manifest_eval ex_spine_eval f numeral_2_eq_2)
qed

section \<open>The ids of the chapters\<close>

text \<open>
  C9 (as the claim states it, refuted). The package document of the example archive is
  well formed and has the spine \<open>nav\<close>, \<open>c1\<close>, \<open>c2\<close>, \<open>c1\<close>. The chapter loop yields the
  chapter \<open>c1\<close> at the spine indices 1 and 3, and the book of the parse has two chapters
  with the id \<open>c1\<close>.
\<close>

theorem chapter_ids_repeated_counterexample:
  "extractSpine (ex_opf_doc ex_spine) = [''nav'', ''c1'', ''c2'', ''c1''] \<and>
   map ch_id (extractChapters ex_dom ex_archive [''nav'', ''c1'', ''c2'', ''c1''] ex_manifest) =
     [''c1'', ''c1''] \<and>
   map ch_order (extractChapters ex_dom ex_archive [''nav'', ''c1'', ''c2'', ''c1''] ex_manifest) =
     [1, 3] \<and>
   parseEpub ex_dom ex_archive = Inr ex_book \<and>
   map ch_id (chapters ex_book) = [''c1'', ''c1''] \<and>
   \<not> distinct (map ch_id (chapters ex_book))"
  by code_simp

text \<open>
  C9 (amended). In every book that \<open>parseEpub\<close> returns, the ids of the chapters are the
  spine ids that yield a chapter, in spine order and once for every occurrence. So the
  ids are pairwise distinct exactly when no such id occurs twice in the spine, and in
  particular whenever the spine names no id more than once.
\<close>

theorem chapter_ids_are_loaded_spine_ids:
  assumes "openPackage P ar = Inr (opfDir, opfDoc)"
    and "parseEpub P ar = Inr book"
  shows "map ch_id (chapters book) =
           filter (chapter_loads P ar (extractManifest opfDir opfDoc)) (extractSpine opfDoc) \<and>
         (distinct (map ch_id (chapters book)) \<longleftrightarrow>
            distinct (filter (chapter_loads P ar (extractManifest opfDir opfDoc))
                        (extractSpine opfDoc))) \<and>
         (distinct (extractSpine opfDoc) \<longrightarrow> distinct (map ch_id (chapters book)))"
proof -
  have ids: "map ch_id (chapters book) =
      filter (chapter_loads P ar (extractManifest opfDir opfDoc)) (extractSpine opfDoc)"
    unfolding parseEpub_chapters[OF assms] by (rule chapters_from_ids)
  then show ?thesis by (simp add: distinct_filter)
qed

theorem chapter_ids_are_loaded_spine_ids_witness:
  "openPackage ex_dom ex_archive_distinct = Inr (''OEBPS/'', ex_opf_doc ex_spine_distinct) \<and>
   parseEpub ex_dom ex_archive_distinct =
     Inr (ex_book\<lparr>chapters := [ex_chapter 1, ex_chapter_plain]\<rparr>) \<and>
   extractSpine (ex_opf_doc ex_spine_distinct) = [''nav'', ''c1'', ''c2'', ''c3''] \<and>
   distinct (extractSpine (ex_opf_doc ex_spine_distinct)) \<and>
   map ch_id (chapters (ex_book\<lparr>chapters := [ex_chapter 1, ex_chapter_plain]\<rparr>)) =
     [''c1'', ''c3''] \<and>
   distinct (map ch_id (chapters (ex_book\<lparr>chapters := [ex_chapter 1, ex_chapter_plain]\<rparr>)))"
proof -
  have sp: "extractSpine (ex_opf_doc ex_spine_distinct) = [''nav'', ''c1'', ''c2'', ''c3'']"
    unfolding ex_spine_eval_distinct by (simp add: ex_spine_distinct_def)
  have d: "distinct (extractSpine (ex_opf_doc ex_spine_distinct))"
    unfolding sp by simp
  have i: "map ch_id (chapters (ex_book\<lparr>chapters := [ex_chapter 1, ex_chapter_plain]\<rparr>)) =
      [''c1'', ''c3'']"
    by (simp add: ex_chapter_def ex_chapter_plain_def)
  from chapter_ids_are_loaded_spine_ids[OF ex_open_distinct ex_parse_distinct] d
  have "distinct (map ch_id (chapters (ex_book\<lparr>chapters := [ex_chapter 1, ex_chapter_plain]\<rparr>)))"
    by blast
  with ex_open_distinct ex_parse_distinct sp d i show ?thesis by blast
qed

section \<open>The title of a chapter\<close>







section \<open>Resources\<close>

lemma map_set_map_fst:
  "map fst (map_set m k v) = (if k \<in> fst ` set m then map fst m else map fst m @ [k])"
  by (induction m) (force simp: image_iff)+

lemma map_set_keys: "fst ` set (map_set m k v) = insert k (fst ` set m)"
proof -
  have "set (map fst (map_set m k v)) = insert k (set (map fst m))"
    unfolding map_set_map_fst by auto
  then show ?thesis by simp
qed

lemma map_set_distinct: "distinct (map fst m) \<Longrightarrow> distinct (map fst (map_set m k v))"
  unfolding map_set_map_fst by simp

lemma map_set_mem: "(h, w) \<in> set (map_set m k v) \<Longrightarrow> (h, w) = (k, v) \<or> (h, w) \<in> set m"
  by (induction m) (auto split: if_splits)

lemma extractResources_snoc:
  "extractResources ar (m @ [p]) = resource_add ar (extractResources ar m) p"
  by (simp add: extractResources_def)

lemma resource_add_cases:
  "resource_add ar r (k, item) =
     (if is_resource_type (item_mediaType item) \<and> entry_loads ar (item_href item)
      then map_set r (item_href item)
             (data_url (item_mediaType item)
                (case ar (item_href item) of Some (Entry t b) \<Rightarrow> b | _ \<Rightarrow> []))
      else r)"
  by (simp add: resource_add_def entry_loads_def split: option.splits entry.splits)

lemma resources_keys:
  "fst ` set (extractResources ar m) =
     {item_href item |k item. (k, item) \<in> set m \<and> is_resource_type (item_mediaType item) \<and>
        entry_loads ar (item_href item)}"
proof (induction m rule: rev_induct)
  case Nil
  show ?case by (simp add: extractResources_def)
next
  case (snoc p m)
  obtain k item where p: "p = (k, item)" by (cases p)
  show ?case
    unfolding extractResources_snoc p resource_add_cases
    using snoc.IH by (auto simp: map_set_keys)
qed

lemma resources_distinct: "distinct (map fst (extractResources ar m))"
proof (induction m rule: rev_induct)
  case Nil
  show ?case by (simp add: extractResources_def)
next
  case (snoc p m)
  obtain k item where p: "p = (k, item)" by (cases p)
  show ?case
    unfolding extractResources_snoc p resource_add_cases
    using snoc.IH by (simp add: map_set_distinct)
qed

lemma resources_values:
  "(h, v) \<in> set (extractResources ar m) \<Longrightarrow>
     \<exists>k item mt t b. (k, item) \<in> set m \<and> item_href item = h \<and> item_mediaType item = Some mt \<and>
        (startsWith mt ''image/'' \<or> mt = ''text/css'' \<or> startsWith mt ''audio/'') \<and>
        ar h = Some (Entry t b) \<and> v = ''data:'' @ mt @ '';base64,'' @ b"
proof (induction m rule: rev_induct)
  case Nil
  then show ?case by (simp add: extractResources_def)
next
  case (snoc p m)
  obtain k item where p: "p = (k, item)" by (cases p)
  show ?case
  proof (cases "(h, v) \<in> set (extractResources ar m)")
    case True
    from snoc.IH[OF this] show ?thesis by fastforce
  next
    case False
    with snoc.prems have new: "is_resource_type (item_mediaType item)"
      "entry_loads ar (item_href item)"
      "(h, v) = (item_href item,
          data_url (item_mediaType item)
            (case ar (item_href item) of Some (Entry t b) \<Rightarrow> b | _ \<Rightarrow> []))"
      unfolding extractResources_snoc p resource_add_cases
      by (auto split: if_splits dest: map_set_mem)
    from new(1) obtain mt where mt: "item_mediaType item = Some mt"
      "startsWith mt ''image/'' \<or> mt = ''text/css'' \<or> startsWith mt ''audio/''"
      by (auto simp: is_resource_type_def split: option.splits)
    from new(2) obtain t b where e: "ar (item_href item) = Some (Entry t b)"
      by (auto simp: entry_loads_def split: option.splits entry.splits)
    have "v = ''data:'' @ mt @ '';base64,'' @ b" "h = item_href item"
      using new(3) mt e by (simp_all add: data_url_def interpolate_def)
    with mt e p show ?thesis by auto
  qed
qed

section \<open>The manifest\<close>

lemma manifest_add_mem:
  "(k, item) \<in> set (manifest_add d m e) \<Longrightarrow>
     (k, item) \<in> set m \<or>
     (\<exists>h. getAttribute e ''id'' = Some k \<and> getAttribute e ''href'' = Some h \<and>
        item = \<lparr>item_href = d @ h, item_mediaType = getAttribute e ''media-type'',
                 item_properties = getAttribute e ''properties''\<rparr>)"
  by (auto simp: manifest_add_def split: option.splits if_splits dest!: map_set_mem)

lemma manifest_add_distinct:
  "distinct (map fst m) \<Longrightarrow> distinct (map fst (manifest_add d m e))"
  by (auto simp: manifest_add_def map_set_distinct split: option.splits)

lemma manifest_fold_mem:
  "(k, item) \<in> set (foldl (manifest_add d) [] es) \<Longrightarrow>
     \<exists>e h. e \<in> set es \<and> getAttribute e ''id'' = Some k \<and> getAttribute e ''href'' = Some h \<and>
        item = \<lparr>item_href = d @ h, item_mediaType = getAttribute e ''media-type'',
                 item_properties = getAttribute e ''properties''\<rparr>"
proof (induction es rule: rev_induct)
  case Nil
  then show ?case by simp
next
  case (snoc e es)
  from snoc.prems have "(k, item) \<in> set (manifest_add d (foldl (manifest_add d) [] es) e)"
    by simp
  from manifest_add_mem[OF this] show ?case
  proof
    assume "(k, item) \<in> set (foldl (manifest_add d) [] es)"
    from snoc.IH[OF this] show ?thesis by auto
  next
    assume "\<exists>h. getAttribute e ''id'' = Some k \<and> getAttribute e ''href'' = Some h \<and>
        item = \<lparr>item_href = d @ h, item_mediaType = getAttribute e ''media-type'',
                 item_properties = getAttribute e ''properties''\<rparr>"
    then show ?thesis by auto
  qed
qed

lemma manifest_fold_distinct: "distinct (map fst (foldl (manifest_add d) [] es))"
  by (induction es rule: rev_induct) (simp_all add: manifest_add_distinct)

lemma first_occurrences_snoc:
  "first_occurrences (xs @ [x]) =
     (if x \<in> set xs then first_occurrences xs else first_occurrences xs @ [x])"
  by (simp add: first_occurrences_def)

lemma set_first_occurrences: "set (first_occurrences xs) = set xs"
  by (simp add: first_occurrences_def)

lemma manifest_add_keys:
  "map fst (manifest_add d m e) =
     (case item_id e of
        None \<Rightarrow> map fst m
      | Some i \<Rightarrow> if i \<in> fst ` set m then map fst m else map fst m @ [i])"
  by (simp add: manifest_add_def item_id_def map_set_map_fst split: option.splits)

lemma manifest_fold_keys:
  "map fst (foldl (manifest_add d) [] es) = first_occurrences (List.map_filter item_id es)"
proof (induction es rule: rev_induct)
  case Nil
  show ?case by (simp add: first_occurrences_def List.map_filter_def)
next
  case (snoc e es)
  have s: "fst ` set (foldl (manifest_add d) [] es) = set (List.map_filter item_id es)"
    using snoc.IH set_first_occurrences[of "List.map_filter item_id es"]
    by (metis set_map)
  show ?case
    by (cases "item_id e")
       (simp_all add: manifest_add_keys s snoc.IH List.map_filter_def first_occurrences_snoc)
qed

lemma manifest_keys_document_order:
  "map fst (extractManifest d doc) =
     first_occurrences
       (List.map_filter item_id (querySelectorAll doc [Descendant ''manifest'' (TypeSel ''item'')]))"
  unfolding extractManifest_def by (rule manifest_fold_keys)

lemma manifest_items:
  "(k, item) \<in> set (extractManifest d doc) \<Longrightarrow>
     \<exists>e h. e \<in> set (querySelectorAll doc [Descendant ''manifest'' (TypeSel ''item'')]) \<and>
        getAttribute e ''id'' = Some k \<and> getAttribute e ''href'' = Some h \<and>
        item = \<lparr>item_href = d @ h, item_mediaType = getAttribute e ''media-type'',
                 item_properties = getAttribute e ''properties''\<rparr>"
  unfolding extractManifest_def by (rule manifest_fold_mem)

lemma manifest_distinct: "distinct (map fst (extractManifest d doc))"
  unfolding extractManifest_def by (rule manifest_fold_distinct)

text \<open>
  C4. For every book that \<open>parseEpub\<close> returns, the keys of its resources are exactly the
  hrefs of the manifest items whose media type begins with \<open>image/\<close>, is \<open>text/css\<close> or
  begins with \<open>audio/\<close> and whose archive entry loads; an href of the manifest is the
  directory of the package document followed by the href attribute of an item element;
  no key occurs twice; and every value is \<open>data:\<close>, the media type of such an item with
  that href, \<open>;base64,\<close> and the base64 content of the entry.
\<close>

theorem resources_keys_and_values:
  assumes "openPackage P ar = Inr (opfDir, opfDoc)"
    and "parseEpub P ar = Inr book"
  shows "fst ` set (resources book) =
           {item_href item |k item. (k, item) \<in> set (extractManifest opfDir opfDoc) \<and>
              is_resource_type (item_mediaType item) \<and> entry_loads ar (item_href item)} \<and>
         distinct (map fst (resources book)) \<and>
         (\<forall>(h, v) \<in> set (resources book).
            \<exists>k item mt t b. (k, item) \<in> set (extractManifest opfDir opfDoc) \<and>
               item_href item = h \<and> item_mediaType item = Some mt \<and>
               (startsWith mt ''image/'' \<or> mt = ''text/css'' \<or> startsWith mt ''audio/'') \<and>
               ar h = Some (Entry t b) \<and> v = ''data:'' @ mt @ '';base64,'' @ b) \<and>
         (\<forall>(k, item) \<in> set (extractManifest opfDir opfDoc).
            \<exists>e h. e \<in> set (querySelectorAll opfDoc [Descendant ''manifest'' (TypeSel ''item'')]) \<and>
               getAttribute e ''id'' = Some k \<and> getAttribute e ''href'' = Some h \<and>
               item_href item = opfDir @ h \<and> item_mediaType item = getAttribute e ''media-type'')"
proof -
  let ?m = "extractManifest opfDir opfDoc"
  have r: "resources book = extractResources ar ?m"
    using assms by (auto simp: parseEpub_openPackage)
  have keys: "fst ` set (resources book) =
           {item_href item |k item. (k, item) \<in> set ?m \<and>
              is_resource_type (item_mediaType item) \<and> entry_loads ar (item_href item)}"
    unfolding r by (rule resources_keys)
  have dist: "distinct (map fst (resources book))"
    unfolding r by (rule resources_distinct)
  have vals: "\<forall>(h, v) \<in> set (resources book).
            \<exists>k item mt t b. (k, item) \<in> set ?m \<and>
               item_href item = h \<and> item_mediaType item = Some mt \<and>
               (startsWith mt ''image/'' \<or> mt = ''text/css'' \<or> startsWith mt ''audio/'') \<and>
               ar h = Some (Entry t b) \<and> v = ''data:'' @ mt @ '';base64,'' @ b"
  proof (rule ballI, rule prod.case_eq_if[THEN iffD2])
    fix p
    assume "p \<in> set (resources book)"
    then have "(fst p, snd p) \<in> set (extractResources ar ?m)"
      unfolding r by simp
    from resources_values[OF this]
    show "\<exists>k item mt t b. (k, item) \<in> set ?m \<and>
               item_href item = fst p \<and> item_mediaType item = Some mt \<and>
               (startsWith mt ''image/'' \<or> mt = ''text/css'' \<or> startsWith mt ''audio/'') \<and>
               ar (fst p) = Some (Entry t b) \<and> snd p = ''data:'' @ mt @ '';base64,'' @ b" .
  qed
  have items: "\<forall>(k, item) \<in> set ?m.
            \<exists>e h. e \<in> set (querySelectorAll opfDoc [Descendant ''manifest'' (TypeSel ''item'')]) \<and>
               getAttribute e ''id'' = Some k \<and> getAttribute e ''href'' = Some h \<and>
               item_href item = opfDir @ h \<and> item_mediaType item = getAttribute e ''media-type''"
  proof (rule ballI, rule prod.case_eq_if[THEN iffD2])
    fix p
    assume "p \<in> set ?m"
    then have "(fst p, snd p) \<in> set ?m" by simp
    from manifest_items[OF this] obtain e h where
      "e \<in> set (querySelectorAll opfDoc [Descendant ''manifest'' (TypeSel ''item'')])"
      "getAttribute e ''id'' = Some (fst p)" "getAttribute e ''href'' = Some h"
      "snd p = \<lparr>item_href = opfDir @ h, item_mediaType = getAttribute e ''media-type'',
                 item_properties = getAttribute e ''properties''\<rparr>"
      by blast
    then show "\<exists>e h. e \<in> set (querySelectorAll opfDoc [Descendant ''manifest'' (TypeSel ''item'')]) \<and>
               getAttribute e ''id'' = Some (fst p) \<and> getAttribute e ''href'' = Some h \<and>
               item_href (snd p) = opfDir @ h \<and>
               item_mediaType (snd p) = getAttribute e ''media-type''"
      by auto
  qed
  from keys dist vals items show ?thesis by (intro conjI)
qed

theorem resources_keys_and_values_witness:
  "parseEpub ex_dom ex_archive = Inr ex_book \<and>
   resources ex_book = [(''OEBPS/images/image.png'', ''data:image/png;base64,iVBORw=='')] \<and>
   {item_href item |k item. (k, item) \<in> set (extractManifest ''OEBPS/'' (ex_opf_doc ex_spine)) \<and>
      is_resource_type (item_mediaType item) \<and> entry_loads ex_archive (item_href item)} =
     {''OEBPS/images/image.png''} \<and>
   distinct (map fst (resources ex_book))"
proof -
  have r: "resources ex_book = [(''OEBPS/images/image.png'', ''data:image/png;base64,iVBORw=='')]"
    by (simp add: ex_book_def)
  from resources_keys_and_values[OF ex_open ex_parse]
  have "fst ` set (resources ex_book) =
           {item_href item |k item. (k, item) \<in> set (extractManifest ''OEBPS/'' (ex_opf_doc ex_spine)) \<and>
              is_resource_type (item_mediaType item) \<and> entry_loads ex_archive (item_href item)}"
    and "distinct (map fst (resources ex_book))"
    by blast+
  then show ?thesis using ex_parse r by simp
qed

section \<open>The cover image\<close>

lemma entry_loads_iff: "entry_loads ar p \<longleftrightarrow> (\<exists>t b. ar p = Some (Entry t b))"
  by (simp add: entry_loads_def split: option.splits entry.splits)

lemma findCoverImage_find:
  "findCoverImage ar m =
     (case find (\<lambda>(k, item). is_cover k item \<and> entry_loads ar (item_href item)) m of
        None \<Rightarrow> None
      | Some (k, item) \<Rightarrow>
          Some (data_url (item_mediaType item) (entry_base64 ar (item_href item))))"
proof (induction m)
  case Nil
  show ?case by simp
next
  case (Cons p m)
  let ?p = "\<lambda>(k, item). is_cover k item \<and> entry_loads ar (item_href item)"
  obtain k item where p: "p = (k, item)" by (cases p)
  show ?case
  proof (cases "is_cover k item \<and> entry_loads ar (item_href item)")
    case True
    then obtain t b where e: "ar (item_href item) = Some (Entry t b)"
      unfolding entry_loads_iff by blast
    have 1: "findCoverImage ar ((k, item) # m) = Some (data_url (item_mediaType item) b)"
      using True e by simp
    have 2: "find ?p ((k, item) # m) = Some (k, item)"
      using True by simp
    have 3: "entry_base64 ar (item_href item) = b"
      using e by (simp add: entry_base64_def)
    show ?thesis unfolding p 1 2 by (simp add: 3)
  next
    case False
    have 1: "findCoverImage ar ((k, item) # m) = findCoverImage ar m"
      using False unfolding entry_loads_iff
      by (cases "ar (item_href item)") (auto split: entry.splits)
    have 2: "find ?p ((k, item) # m) = find ?p m"
      using False by auto
    show ?thesis unfolding p 1 2 by (rule Cons.IH)
  qed
qed

lemma parseEpub_cover:
  assumes "openPackage P ar = Inr (opfDir, opfDoc)" and "parseEpub P ar = Inr book"
  shows "coverImage book = findCoverImage ar (extractManifest opfDir opfDoc)"
  using assms by (auto simp: parseEpub_openPackage)

lemma ex_open_cover: "openPackage ex_dom ex_archive_cover = Inr (''OEBPS/'', ex_opf_doc ex_spine)"
  by code_simp

lemma ex_parse_cover:
  "parseEpub ex_dom ex_archive_cover =
     Inr (ex_book\<lparr>coverImage := Some ''data:null;base64,/9j/4A==''\<rparr>)"
  by code_simp

text \<open>
  C5 (as the claim states it, refuted). In the example archive the first manifest item
  that matches the cover rules has the id \<open>cover\<close> and no archive entry; a later item
  carries the cover marker and loads. The parse returns the later item as the cover,
  where the first match alone would give no cover. And an item whose only property
  token is \<open>no-cover-image\<close> is taken as the cover, though its token list does not hold
  the marker.
\<close>

theorem cover_first_match_counterexample:
  "parseEpub ex_dom ex_archive = Inr ex_book \<and>
   extractManifest ''OEBPS/'' (ex_opf_doc ex_spine) = ex_manifest \<and>
   coverImage ex_book = Some ''data:image/png;base64,iVBORw=='' \<and>
   findCoverImage ex_archive ex_manifest = Some ''data:image/png;base64,iVBORw=='' \<and>
   cover_by_first_match ex_archive ex_manifest = None \<and>
   findCoverImage ex_archive ex_manifest_marker = Some ''data:image/png;base64,iVBORw=='' \<and>
   cover_by_first_match ex_archive ex_manifest_marker = None"
  by code_simp

text \<open>
  C5 (amended). Cover resolution scans the manifest in its order of insertion, which is
  the document order of the first item element of every id, and returns the inline data
  reference of the first item that matches and loads: an item matches when its
  properties text contains \<open>cover-image\<close> or its id is \<open>cover\<close> or \<open>cover-image\<close>, and a
  matching item whose archive entry is missing or unreadable is passed over. There is
  no cover exactly when no matching item loads.
\<close>

theorem cover_is_first_loadable_match:
  assumes "openPackage P ar = Inr (opfDir, opfDoc)"
    and "parseEpub P ar = Inr book"
  shows "coverImage book =
           (case find (\<lambda>(k, item). is_cover k item \<and> entry_loads ar (item_href item))
                   (extractManifest opfDir opfDoc) of
              None \<Rightarrow> None
            | Some (k, item) \<Rightarrow>
                Some (data_url (item_mediaType item) (entry_base64 ar (item_href item)))) \<and>
         (coverImage book = None \<longleftrightarrow>
            (\<forall>(k, item) \<in> set (extractManifest opfDir opfDoc).
               \<not> (is_cover k item \<and> entry_loads ar (item_href item)))) \<and>
         map fst (extractManifest opfDir opfDoc) =
           first_occurrences
             (List.map_filter item_id
                (querySelectorAll opfDoc [Descendant ''manifest'' (TypeSel ''item'')]))"
proof -
  let ?p = "\<lambda>(k, item). is_cover k item \<and> entry_loads ar (item_href item)"
  let ?m = "extractManifest opfDir opfDoc"
  have c: "coverImage book =
      (case find ?p ?m of
         None \<Rightarrow> None
       | Some (k, item) \<Rightarrow>
           Some (data_url (item_mediaType item) (entry_base64 ar (item_href item))))"
    unfolding parseEpub_cover[OF assms] by (rule findCoverImage_find)
  have "coverImage book = None \<longleftrightarrow> find ?p ?m = None"
    unfolding c by (simp split: option.splits prod.splits)
  also have "\<dots> \<longleftrightarrow> (\<forall>(k, item) \<in> set ?m. \<not> (is_cover k item \<and> entry_loads ar (item_href item)))"
    by (auto simp: find_None_iff)
  finally show ?thesis using c manifest_keys_document_order[of opfDir opfDoc] by blast
qed

theorem cover_is_first_loadable_match_witness:
  "parseEpub ex_dom ex_archive = Inr ex_book \<and>
   find (\<lambda>(k, item). is_cover k item \<and> entry_loads ex_archive (item_href item))
     (extractManifest ''OEBPS/'' (ex_opf_doc ex_spine)) =
     Some (''img'', \<lparr>item_href = ''OEBPS/images/image.png'', item_mediaType = Some ''image/png'',
                     item_properties = Some ''cover-image''\<rparr>) \<and>
   coverImage ex_book = Some ''data:image/png;base64,iVBORw==''"
proof -
  have f: "find (\<lambda>(k, item). is_cover k item \<and> entry_loads ex_archive (item_href item))
     (extractManifest ''OEBPS/'' (ex_opf_doc ex_spine)) =
     Some (''img'', \<lparr>item_href = ''OEBPS/images/image.png'', item_mediaType = Some ''image/png'',
                     item_properties = Some ''cover-image''\<rparr>)"
    by code_simp
  have e: "data_url (Some ''image/png'') (entry_base64 ex_archive ''OEBPS/images/image.png'') =
      ''data:image/png;base64,iVBORw==''"
    by code_simp
  from cover_is_first_loadable_match[OF ex_open ex_parse]
  have "coverImage ex_book = Some ''data:image/png;base64,iVBORw==''"
    unfolding f using e by simp
  with ex_parse f show ?thesis by blast
qed

text \<open>
  C10. Cover resolution never looks at the media type of the item it selects: whatever
  that item is, the cover is \<open>data:\<close>, its media type as the template literal prints it,
  \<open>;base64,\<close> and the content of its entry. The media type of the item is the
  \<open>media-type\<close> attribute of its item element, and when that attribute is absent the
  cover begins with \<open>data:null;base64,\<close>.
\<close>

theorem cover_media_type_unchecked:
  assumes "openPackage P ar = Inr (opfDir, opfDoc)"
    and "parseEpub P ar = Inr book"
    and "find (\<lambda>(k, item). is_cover k item \<and> entry_loads ar (item_href item))
           (extractManifest opfDir opfDoc) = Some (k, item)"
    and "ar (item_href item) = Some (Entry t b)"
  shows "coverImage book = Some (''data:'' @ interpolate (item_mediaType item) @ '';base64,'' @ b) \<and>
         (\<exists>e. e \<in> set (querySelectorAll opfDoc [Descendant ''manifest'' (TypeSel ''item'')]) \<and>
            getAttribute e ''id'' = Some k \<and>
            item_mediaType item = getAttribute e ''media-type'') \<and>
         (item_mediaType item = None \<longrightarrow> coverImage book = Some (''data:null;base64,'' @ b))"
proof -
  have c: "coverImage book = Some (''data:'' @ interpolate (item_mediaType item) @ '';base64,'' @ b)"
    unfolding parseEpub_cover[OF assms(1,2)] findCoverImage_find assms(3)
    by (simp add: data_url_def entry_base64_def assms(4))
  have "(k, item) \<in> set (extractManifest opfDir opfDoc)"
    using assms(3) by (auto simp: find_Some_iff in_set_conv_nth)
  from manifest_items[OF this]
  have "\<exists>e. e \<in> set (querySelectorAll opfDoc [Descendant ''manifest'' (TypeSel ''item'')]) \<and>
            getAttribute e ''id'' = Some k \<and>
            item_mediaType item = getAttribute e ''media-type''"
    by force
  with c show ?thesis by (auto simp: interpolate_def)
qed

theorem cover_media_type_unchecked_witness:
  "parseEpub ex_dom ex_archive_cover = Inr (ex_book\<lparr>coverImage := Some ''data:null;base64,/9j/4A==''\<rparr>) \<and>
   find (\<lambda>(k, item). is_cover k item \<and> entry_loads ex_archive_cover (item_href item))
     (extractManifest ''OEBPS/'' (ex_opf_doc ex_spine)) =
     Some (''cover'', \<lparr>item_href = ''OEBPS/cover.jpg'', item_mediaType = None,
                       item_properties = None\<rparr>) \<and>
   ex_archive_cover ''OEBPS/cover.jpg'' = Some (Entry ''JFIF'' ''/9j/4A=='') \<and>
   coverImage (ex_book\<lparr>coverImage := Some ''data:null;base64,/9j/4A==''\<rparr>) =
     Some ''data:null;base64,/9j/4A==''"
proof -
  have f: "find (\<lambda>(k, item). is_cover k item \<and> entry_loads ex_archive_cover (item_href item))
     (extractManifest ''OEBPS/'' (ex_opf_doc ex_spine)) =
     Some (''cover'', \<lparr>item_href = ''OEBPS/cover.jpg'', item_mediaType = None,
                       item_properties = None\<rparr>)"
    by code_simp
  have e: "ex_archive_cover (item_href \<lparr>item_href = ''OEBPS/cover.jpg'', item_mediaType = None,
                       item_properties = None\<rparr>) = Some (Entry ''JFIF'' ''/9j/4A=='')"
    by code_simp
  from cover_media_type_unchecked[OF ex_open_cover ex_parse_cover f e]
  have "coverImage (ex_book\<lparr>coverImage := Some ''data:null;base64,/9j/4A==''\<rparr>) =
     Some ''data:null;base64,/9j/4A==''"
    by simp
  with ex_parse_cover f e show ?thesis by simp
qed

section \<open>The container pointer\<close>

text \<open>
  C1 (as the claim states it, refuted). The container entry of this archive parses and
  its root-file element has no \<open>full-path\<close> attribute. The parse fails, but with the
  error of a file that is not found (the package path is the empty text), not with the
  container error.
\<close>

theorem container_without_full_path_counterexample:
  "container_state ex_dom ex_archive_nopath = NoFullPath \<and>
   findOpfPath ex_dom ex_archive_nopath = Inr ([], []) \<and>
   parseEpub ex_dom ex_archive_nopath = Inl (FileNotFound []) \<and>
   parseEpub ex_dom ex_archive_nopath \<noteq> Inl ContainerError"
  by code_simp

text \<open>
  C1 (amended). For every archive whose container entry is missing, unreadable or
  malformed, the parse fails with the container error and returns no book. When the
  entry parses and has no root-file element, or its root-file element has no
  \<open>full-path\<close> attribute, \<open>findOpfPath\<close> does not fail: the package path and directory
  are the empty text, the parse never fails with the container error, and it fails with
  the error of a file not found at the empty path when the archive has no such entry.
\<close>

theorem parse_fails_on_container:
  "(container_state P ar \<in> {Missing, Unread, Malformed} \<longrightarrow>
      parseEpub P ar = Inl ContainerError) \<and>
   (container_state P ar = NoFullPath \<longrightarrow>
      findOpfPath P ar = Inr ([], []) \<and>
      parseEpub P ar \<noteq> Inl ContainerError \<and>
      (ar [] = None \<longrightarrow> parseEpub P ar = Inl (FileNotFound [])))"
proof (intro conjI impI)
  assume "container_state P ar \<in> {Missing, Unread, Malformed}"
  then have "findOpfPath P ar = Inl ContainerError"
    by (auto simp: container_state_def findOpfPath_def getFileContent_def
        split: option.splits entry.splits sum.splits)
  then show "parseEpub P ar = Inl ContainerError"
    by (simp add: parseEpub_def)
next
  assume "container_state P ar = NoFullPath"
  then show f: "findOpfPath P ar = Inr ([], [])"
    by (auto simp: container_state_def findOpfPath_def getFileContent_def substring0_def
        split: option.splits entry.splits sum.splits)
  show "parseEpub P ar \<noteq> Inl ContainerError"
    using f
    by (auto simp: parseEpub_def getFileContent_def Let_def
        split: option.splits entry.splits sum.splits dest: parseXml_Inl)
  assume "ar [] = None"
  then show "parseEpub P ar = Inl (FileNotFound [])"
    using f by (simp add: parseEpub_def getFileContent_def)
qed

theorem parse_fails_on_container_witness:
  "container_state ex_dom Map.empty = Missing \<and>
   parseEpub ex_dom Map.empty = Inl ContainerError \<and>
   container_state ex_dom ex_archive_unread = Unread \<and>
   parseEpub ex_dom ex_archive_unread = Inl ContainerError \<and>
   container_state ex_dom ex_archive_malformed = Malformed \<and>
   parseEpub ex_dom ex_archive_malformed = Inl ContainerError \<and>
   container_state ex_dom ex_archive_nopath = NoFullPath \<and>
   ex_archive_nopath [] = None \<and>
   parseEpub ex_dom ex_archive_nopath = Inl (FileNotFound [])"
proof -
  have s1: "container_state ex_dom Map.empty = Missing"
    by code_simp
  have s2: "container_state ex_dom ex_archive_unread = Unread"
    by code_simp
  have s3: "container_state ex_dom ex_archive_malformed = Malformed"
    by code_simp
  have s4: "container_state ex_dom ex_archive_nopath = NoFullPath"
    by code_simp
  have s5: "ex_archive_nopath [] = None"
    by code_simp
  show ?thesis
    using parse_fails_on_container[of ex_dom Map.empty]
      parse_fails_on_container[of ex_dom ex_archive_unread]
      parse_fails_on_container[of ex_dom ex_archive_malformed]
      parse_fails_on_container[of ex_dom ex_archive_nopath]
    by (simp add: s1 s2 s3 s4 s5)
qed

section \<open>Metadata\<close>

text \<open>
  C7 (as the claim states it, refuted). In this package document the element with the
  attribute \<open>name="dc:title"\<close> has no text and the element with the attribute
  \<open>property="dc:title"\<close> has the text \<open>Pearl\<close>. The first strategy with text is the
  second one, but the lookup stops at the element the first strategy finds, and the
  title is the default.
\<close>

theorem metadata_first_text_counterexample:
  "text_or_empty (by_name_attr ex_meta_doc ''dc:title'') = [] \<and>
   text_or_empty (by_property_attr ex_meta_doc ''dc:title'') = ''Pearl'' \<and>
   lookup_first_text ex_meta_doc ''dc:title'' = ''Pearl'' \<and>
   getMetaContent ex_meta_doc ''dc:title'' = [] \<and>
   md_title (extractMetadata ex_meta_doc) = ''Unknown Title''"
  by code_simp

text \<open>
  C7 (amended). Every lookup tries the strategies in the fixed order name attribute,
  property attribute, scan of the metadata section by local name (for a name that begins
  with \<open>dc:\<close>), plain tag name, and the first strategy that finds an element decides: the
  result is the trimmed text of that element, empty or not. A field is the result of
  the lookup under the \<open>dc:\<close> name when that is not empty, else the result of the lookup
  under the plain name when that is not empty, else its default: \<open>Unknown Title\<close>,
  \<open>Unknown Author\<close>, \<open>en\<close> and the empty text. An element with the attribute
  \<open>name="dc:title"\<close> and text decides the title, whatever other elements there are.
\<close>

theorem metadata_lookup_order:
  "getMetaContent doc name = lookup_first_element doc name \<and>
   md_title (extractMetadata doc) =
     (if getMetaContent doc ''dc:title'' \<noteq> [] then getMetaContent doc ''dc:title''
      else if getMetaContent doc ''title'' \<noteq> [] then getMetaContent doc ''title''
      else ''Unknown Title'') \<and>
   md_author (extractMetadata doc) =
     (if getMetaContent doc ''dc:creator'' \<noteq> [] then getMetaContent doc ''dc:creator''
      else if getMetaContent doc ''creator'' \<noteq> [] then getMetaContent doc ''creator''
      else ''Unknown Author'') \<and>
   md_language (extractMetadata doc) =
     (if getMetaContent doc ''dc:language'' \<noteq> [] then getMetaContent doc ''dc:language''
      else if getMetaContent doc ''language'' \<noteq> [] then getMetaContent doc ''language''
      else ''en'') \<and>
   md_identifier (extractMetadata doc) =
     (if getMetaContent doc ''dc:identifier'' \<noteq> [] then getMetaContent doc ''dc:identifier''
      else if getMetaContent doc ''identifier'' \<noteq> [] then getMetaContent doc ''identifier''
      else []) \<and>
   (by_name_attr doc ''dc:title'' = Some e \<and> trim (textContent e) \<noteq> [] \<longrightarrow>
      md_title (extractMetadata doc) = trim (textContent e))"
proof -
  have look: "getMetaContent doc name = lookup_first_element doc name" for name
    by (cases "by_name_attr doc name"; cases "by_property_attr doc name";
        cases "by_local_name_scan doc name"; cases "by_plain_tag doc name")
       (simp_all add: getMetaContent_def lookup_first_element_def Let_def text_or_empty_def)
  have named: "md_title (extractMetadata doc) = trim (textContent e)"
    if "by_name_attr doc ''dc:title'' = Some e" "trim (textContent e) \<noteq> []"
    using that
    by (simp add: extractMetadata_def getMetaContent_def str_or_def text_or_empty_def Let_def)
  show ?thesis
    using look named by (simp add: extractMetadata_def str_or_def)
qed

theorem metadata_lookup_order_witness:
  "by_name_attr ex_meta_doc_named ''dc:title'' =
     Some (Element ''meta'' [(''name'', ''dc:title'')] [TextNode '' Named '']) \<and>
   by_local_name_scan ex_meta_doc_named ''dc:title'' =
     Some (Element ''dc:title'' [] [TextNode ''Namespaced'']) \<and>
   trim (textContent (Element ''meta'' [(''name'', ''dc:title'')] [TextNode '' Named ''])) = ''Named'' \<and>
   md_title (extractMetadata ex_meta_doc_named) = ''Named''"
proof -
  have a: "by_name_attr ex_meta_doc_named ''dc:title'' =
     Some (Element ''meta'' [(''name'', ''dc:title'')] [TextNode '' Named ''])"
    by code_simp
  have b: "by_local_name_scan ex_meta_doc_named ''dc:title'' =
     Some (Element ''dc:title'' [] [TextNode ''Namespaced''])"
    by code_simp
  have c: "trim (textContent (Element ''meta'' [(''name'', ''dc:title'')] [TextNode '' Named ''])) =
     ''Named''"
    by code_simp
  let ?e = "Element ''meta'' [(''name'', ''dc:title'')] [TextNode '' Named '']"
  have "by_name_attr ex_meta_doc_named ''dc:title'' = Some ?e \<and> trim (textContent ?e) \<noteq> [] \<longrightarrow>
      md_title (extractMetadata ex_meta_doc_named) = trim (textContent ?e)"
    using metadata_lookup_order[of ex_meta_doc_named "''dc:title''" ?e] by blast
  then have "md_title (extractMetadata ex_meta_doc_named) = ''Named''"
    unfolding c using a by simp
  with a b c show ?thesis by blast
qed

section \<open>The content rewriter\<close>

subsection \<open>Replacing where nothing or one thing matches\<close>






subsection \<open>Where a match ends\<close>


subsection \<open>Matches of the source expression\<close>







subsection \<open>One image and one resource\<close>
















end
